theory Spec2Isabelle
  imports Main "HOL-Library.Word"
begin

section \<open>Data model of \<^verbatim>\<open>client/blindai/client.py\<close>\<close>

text \<open>
  Python \<^verbatim>\<open>bytes\<close> are lists of octets, \<^verbatim>\<open>str\<close> is \<open>string\<close>, an attribute that
  may hold \<^verbatim>\<open>None\<close> is an \<open>option\<close>. A raised exception is the \<open>Inl\<close> side of a
  sum; the exception classes are the ones this module raises or lets through.
\<close>

type_synonym bytes = "8 word list"

datatype ModelDatumType = F32 | F64 | I32 | I64 | U32 | U64 | U8 | U16 | I8 | I16 | Bool

fun dt_per_type :: "ModelDatumType \<Rightarrow> nat" where
  "dt_per_type F32 = 4"
| "dt_per_type F64 = 8"
| "dt_per_type I32 = 4"
| "dt_per_type I64 = 8"
| "dt_per_type U32 = 4"
| "dt_per_type U64 = 8"
| "dt_per_type U8 = 1"
| "dt_per_type U16 = 2"
| "dt_per_type I8 = 1"
| "dt_per_type I16 = 2"
| "dt_per_type Bool = 1"

datatype error =
    SignatureError string
  | VersionError string
  | ConnectionError string
  | ValueError string
  | AttestationError string
  | FileNotFoundError string
  | DecodeError
  | EncodingError
  | AttributeError
  | TypeError
  | IndexError
  | UnboundLocalError
  | UnicodeDecodeError

text \<open>What \<^verbatim>\<open>grpc\<close> and \<^verbatim>\<open>socket\<close> raise; the module maps both to \<open>ConnectionError\<close>.\<close>

datatype RpcError = RpcError string
datatype socket_error = SocketError string

definition and_then :: "error + 'a \<Rightarrow> ('a \<Rightarrow> error + 'b) \<Rightarrow> error + 'b" where
  "and_then r f = (case r of Inl e \<Rightarrow> Inl e | Inr x \<Rightarrow> f x)"

text \<open>
  Values the module only passes on: the policy (the content of its file), the enclave
  signing key (the raw public key), the verified claims, and the attestation reply
  \<^verbatim>\<open>GetSgxQuoteWithCollateralReply\<close> with the three fields the module reads.
\<close>

datatype Policy = Policy bytes
datatype Ed25519PublicKey = Ed25519PublicKey bytes

record claims =
  server_cert :: bytes
  sgx_mrenclave :: string

record GetSgxQuoteWithCollateralReply =
  collateral :: bytes
  quote :: bytes
  enclave_held_data :: bytes

subsection \<open>Protocol-buffer messages as the module reads them\<close>

text \<open>
  The generated message classes are imported, not defined, by the module. A decoded
  message is modelled by the values its field getters return. In the Python
  protocol-buffer runtime a keyword argument \<^verbatim>\<open>None\<close> of a message constructor leaves
  the field unset, and the getter of an unset field returns the field's default: the
  empty byte string, the empty string, or an empty message; it never returns
  \<^verbatim>\<open>None\<close>.
\<close>

record PbTensorInfo =
  pti_dims :: "int list"
  pti_datum_type :: "ModelDatumType option"
  pti_index :: nat
  pti_index_name :: string

record PbTensorData =
  ptd_info :: PbTensorInfo
  ptd_bytes_data :: bytes

record SendModelPayload =
  smp_model_hash :: bytes
  smp_model_id :: string

record RunModelPayload =
  rmp_output_tensors :: "PbTensorData list"
  rmp_input_hash :: bytes
  rmp_model_id :: string

record PbPayload =
  send_model_payload :: SendModelPayload
  run_model_payload :: RunModelPayload

record ResponseProof =
  rp_payload :: bytes
  rp_signature :: bytes
  rp_attestation :: GetSgxQuoteWithCollateralReply

definition empty_reply :: GetSgxQuoteWithCollateralReply where
  "empty_reply = \<lparr>collateral = [], quote = [], enclave_held_data = []\<rparr>"

definition ResponseProof_init ::
  "bytes option \<Rightarrow> bytes option \<Rightarrow> GetSgxQuoteWithCollateralReply option \<Rightarrow> ResponseProof" where
  "ResponseProof_init p s a =
     \<lparr>rp_payload = (case p of None \<Rightarrow> [] | Some b \<Rightarrow> b),
      rp_signature = (case s of None \<Rightarrow> [] | Some b \<Rightarrow> b),
      rp_attestation = (case a of None \<Rightarrow> empty_reply | Some m \<Rightarrow> m)\<rparr>"

subsection \<open>The imported helpers\<close>

text \<open>
  Everything the module imports and calls is a parameter of the model: the
  cryptography, the attestation verifier, the message codec, the helpers of
  \<^verbatim>\<open>blindai.utils\<close> and the file system. \<open>'v\<close> is the type of a tensor element.
  \<open>sha256\<close> is the digest of all the bytes fed to a \<^verbatim>\<open>hashlib\<close> object, in order.
\<close>

record 'v env =
  verify :: "Ed25519PublicKey \<Rightarrow> bytes \<Rightarrow> bytes \<Rightarrow> bool"
  sha256 :: "bytes \<Rightarrow> bytes"
  verify_dcap_attestation :: "bytes \<Rightarrow> bytes \<Rightarrow> bytes \<Rightarrow> error + claims"
  verify_claims :: "claims \<Rightarrow> Policy option \<Rightarrow> error + unit"
  get_enclave_signing_key :: "bytes \<Rightarrow> error + Ed25519PublicKey"
  Policy_from_file :: "string option \<Rightarrow> error + Policy"
  PbPayload_FromString :: "bytes \<Rightarrow> error + PbPayload"
  ResponseProof_SerializeToString :: "ResponseProof \<Rightarrow> bytes"
  ResponseProof_FromString :: "bytes \<Rightarrow> error + ResponseProof"
  serialize_tensor :: "'v list \<Rightarrow> ModelDatumType option \<Rightarrow> error + bytes list"
  create_byte_chunk :: "bytes \<Rightarrow> bytes list"
  encode_certificate :: "bytes \<Rightarrow> bytes"
  strip_https :: "string \<Rightarrow> string"
  supported_server_version :: "string \<Rightarrow> bool"
  check_rpc_exception :: "RpcError \<Rightarrow> string"
  check_socket_exception :: "socket_error \<Rightarrow> string"
  ssl_get_server_certificate :: "string \<Rightarrow> int \<Rightarrow> socket_error + bytes"
  read_file :: "string option \<Rightarrow> error + bytes"
  basename :: "string \<Rightarrow> string"
  is_torch_installed :: bool

section \<open>Signed responses\<close>

record SignedResponse =
  payload :: "bytes option"
  signature :: "bytes option"
  attestation :: "GetSgxQuoteWithCollateralReply option"

definition is_simulation_mode :: "'a SignedResponse_scheme \<Rightarrow> bool" where
  "is_simulation_mode self = (attestation self = None)"

definition is_signed :: "'a SignedResponse_scheme \<Rightarrow> bool" where
  "is_signed self = (signature self \<noteq> None)"

definition as_bytes :: "'v env \<Rightarrow> 'a SignedResponse_scheme \<Rightarrow> bytes" where
  "as_bytes env self =
     ResponseProof_SerializeToString env
       (ResponseProof_init (payload self) (signature self) (attestation self))"

text \<open>\<^verbatim>\<open>SignedResponse._load_payload\<close> is \<^verbatim>\<open>pass\<close>.\<close>

definition load_from_bytes ::
  "'v env \<Rightarrow> 'a SignedResponse_scheme \<Rightarrow> bytes \<Rightarrow> error + 'a SignedResponse_scheme" where
  "load_from_bytes env self b =
     and_then (ResponseProof_FromString env b) (\<lambda>proof.
       Inr (self\<lparr>payload := Some (rp_payload proof),
                 signature := Some (rp_signature proof),
                 attestation := Some (rp_attestation proof)\<rparr>))"

subsection \<open>\<^verbatim>\<open>_validate_quote\<close>\<close>

definition get_server_cert :: "claims \<Rightarrow> bytes" where
  "get_server_cert c = server_cert c"

definition validate_quote_impl ::
  "'v env \<Rightarrow> GetSgxQuoteWithCollateralReply \<Rightarrow> Policy option \<Rightarrow> error + Ed25519PublicKey" where
  "validate_quote_impl env att policy =
     and_then (verify_dcap_attestation env (quote att) (collateral att) (enclave_held_data att))
       (\<lambda>claims.
     and_then (verify_claims env claims policy) (\<lambda>_.
       get_enclave_signing_key env (get_server_cert claims)))"

subsection \<open>The steps both \<^verbatim>\<open>validate\<close> methods share\<close>

text \<open>
  \<^verbatim>\<open>UploadModelResponse.validate\<close> and \<^verbatim>\<open>RunModelResponse.validate\<close> open with the
  same statements: the signed and simulation-mode checks, the policy file, the quote
  validation, the decoding of the payload and the signature verification, in that order.
\<close>

definition check_signed :: "'a SignedResponse_scheme \<Rightarrow> bool \<Rightarrow> error + unit" where
  "check_signed self allow_simulation_mode =
     (if \<not> is_signed self then Inl (SignatureError ''Response is not signed'')
      else if \<not> allow_simulation_mode \<and> is_simulation_mode self
        then Inl (SignatureError ''Response was produced using simulation mode'')
      else Inr ())"

definition load_policy ::
  "'v env \<Rightarrow> 'a SignedResponse_scheme \<Rightarrow> string option \<Rightarrow> Policy option \<Rightarrow> bool
     \<Rightarrow> error + Policy option" where
  "load_policy env self policy_file policy validate_quote =
     (if \<not> is_simulation_mode self \<and> validate_quote \<and> policy_file \<noteq> None
      then and_then (Policy_from_file env policy_file) (\<lambda>p. Inr (Some p))
      else Inr policy)"

definition quote_validation ::
  "'v env \<Rightarrow> 'a SignedResponse_scheme \<Rightarrow> Policy option \<Rightarrow> bool \<Rightarrow> Ed25519PublicKey option
     \<Rightarrow> error + Ed25519PublicKey option" where
  "quote_validation env self policy validate_quote enclave_signing_key =
     (case attestation self of
        Some att \<Rightarrow>
          if validate_quote
          then and_then (validate_quote_impl env att policy) (\<lambda>k. Inr (Some k))
          else Inr enclave_signing_key
      | None \<Rightarrow> Inr enclave_signing_key)"

text \<open>\<^verbatim>\<open>PbPayload.FromString(self.payload)\<close>: \<^verbatim>\<open>None\<close> is not a byte string.\<close>

definition decode_payload :: "'v env \<Rightarrow> 'a SignedResponse_scheme \<Rightarrow> error + PbPayload" where
  "decode_payload env self =
     (case payload self of None \<Rightarrow> Inl TypeError | Some b \<Rightarrow> PbPayload_FromString env b)"

text \<open>
  \<^verbatim>\<open>enclave_signing_key.verify(self.signature, self.payload)\<close> inside
  \<^verbatim>\<open>try ... except InvalidSignature\<close>; on \<^verbatim>\<open>None\<close> the attribute lookup fails.
\<close>

definition verify_signature ::
  "'v env \<Rightarrow> 'a SignedResponse_scheme \<Rightarrow> Ed25519PublicKey option \<Rightarrow> error + unit" where
  "verify_signature env self enclave_signing_key =
     (if \<not> is_simulation_mode self then
        (case enclave_signing_key of
           None \<Rightarrow> Inl AttributeError
         | Some k \<Rightarrow>
             (case (signature self, payload self) of
                (Some s, Some p) \<Rightarrow>
                  if verify env k s p then Inr () else Inl (SignatureError ''Invalid signature'')
              | _ \<Rightarrow> Inl TypeError))
      else Inr ())"

subsection \<open>\<^verbatim>\<open>UploadModelResponse\<close>\<close>

record UploadModelResponse = SignedResponse +
  upload_model_id :: "string option"

definition UploadModelResponse_validate ::
  "'v env \<Rightarrow> 'a SignedResponse_scheme \<Rightarrow> bytes \<Rightarrow> string option \<Rightarrow> Policy option \<Rightarrow> bool
     \<Rightarrow> Ed25519PublicKey option \<Rightarrow> bool \<Rightarrow> error + unit" where
  "UploadModelResponse_validate env self model_hash policy_file policy validate_quote
       enclave_signing_key allow_simulation_mode =
     and_then (check_signed self allow_simulation_mode) (\<lambda>_.
     and_then (load_policy env self policy_file policy validate_quote) (\<lambda>policy.
     and_then (quote_validation env self policy validate_quote enclave_signing_key)
       (\<lambda>enclave_signing_key.
     and_then (decode_payload env self) (\<lambda>pb.
     and_then (verify_signature env self enclave_signing_key) (\<lambda>_.
       if model_hash \<noteq> smp_model_hash (send_model_payload pb)
       then Inl (SignatureError ''Invalid returned model_hash'')
       else Inr ())))))"

text \<open>\<^verbatim>\<open>UploadModelResponse._load_payload\<close> and the \<^verbatim>\<open>load_from_bytes\<close> it completes.\<close>

definition UploadModelResponse_load_payload ::
  "'v env \<Rightarrow> UploadModelResponse \<Rightarrow> error + UploadModelResponse" where
  "UploadModelResponse_load_payload env self =
     and_then (decode_payload env self) (\<lambda>pb.
       Inr (self\<lparr>upload_model_id := Some (smp_model_id (send_model_payload pb))\<rparr>))"

definition UploadModelResponse_load_from_bytes ::
  "'v env \<Rightarrow> UploadModelResponse \<Rightarrow> bytes \<Rightarrow> error + UploadModelResponse" where
  "UploadModelResponse_load_from_bytes env self b =
     and_then (load_from_bytes env self b) (UploadModelResponse_load_payload env)"

subsection \<open>\<^verbatim>\<open>TensorInfo\<close> and \<^verbatim>\<open>Tensor\<close>\<close>

text \<open>
  The class declares four attributes; an attribute that was never assigned is \<open>None\<close>
  here, and reading it raises \<open>AttributeError\<close>. The datum type is the value of the
  message field (\<open>None\<close>: the field was not set).
\<close>

record TensorInfo =
  dims :: "int list option"
  datum_type :: "ModelDatumType option option"
  index :: "nat option"
  index_name :: "string option"

definition TensorInfo_new :: TensorInfo where
  "TensorInfo_new = \<lparr>dims = None, datum_type = None, index = None, index_name = None\<rparr>"

definition TensorInfo_init ::
  "int list \<Rightarrow> ModelDatumType option \<Rightarrow> nat \<Rightarrow> string \<Rightarrow> TensorInfo" where
  "TensorInfo_init dims' datum_type' index' index_name' =
     TensorInfo_new\<lparr>dims := Some dims', datum_type := Some datum_type'\<rparr>"

definition getattr :: "'a option \<Rightarrow> error + 'a" where
  "getattr a = (case a of None \<Rightarrow> Inl AttributeError | Some v \<Rightarrow> Inr v)"

record Tensor =
  info :: TensorInfo
  bytes_data :: bytes

definition Tensor_init :: "TensorInfo \<Rightarrow> bytes \<Rightarrow> Tensor" where
  "Tensor_init info' bytes_data' = \<lparr>info = info', bytes_data = bytes_data'\<rparr>"

definition Tensor_shape :: "Tensor \<Rightarrow> error + int list" where
  "Tensor_shape self = getattr (dims (info self))"

definition Tensor_datum_type :: "Tensor \<Rightarrow> error + ModelDatumType option" where
  "Tensor_datum_type self = getattr (datum_type (info self))"

subsection \<open>\<^verbatim>\<open>RunModelResponse\<close>\<close>

text \<open>
  The arguments \<^verbatim>\<open>tensors\<close>, \<^verbatim>\<open>dtype\<close> and \<^verbatim>\<open>shape\<close> are unions in the source: one
  tensor or a list of tensors, one datum type or a list, one shape or a list; \<^verbatim>\<open>dtype\<close>
  and \<^verbatim>\<open>shape\<close> default to \<^verbatim>\<open>None\<close> in \<^verbatim>\<open>run_model\<close>. Tensor elements (\<open>'v\<close>) are
  not lists.
\<close>

datatype 'v tensors_arg = Flat "'v list" | Nested "'v list list"
datatype dtype_arg = DtNone | DtOne ModelDatumType | DtMany "ModelDatumType option list"
datatype shape_arg = ShNone | ShFlat "int list" | ShNested "int list list"

text \<open>\<^verbatim>\<open>if type(tensors[0]) != list: tensors = [tensors]\<close>\<close>

definition wrap_tensors :: "'v tensors_arg \<Rightarrow> error + 'v list list" where
  "wrap_tensors tensors =
     (case tensors of
        Flat [] \<Rightarrow> Inl IndexError
      | Flat (x # xs) \<Rightarrow> Inr [x # xs]
      | Nested [] \<Rightarrow> Inl IndexError
      | Nested (t # ts) \<Rightarrow> Inr (t # ts))"

text \<open>\<^verbatim>\<open>if type(dtype) != list: dtype = [dtype]\<close>\<close>

definition wrap_dtype :: "dtype_arg \<Rightarrow> ModelDatumType option list" where
  "wrap_dtype dtype =
     (case dtype of DtNone \<Rightarrow> [None] | DtOne d \<Rightarrow> [Some d] | DtMany ds \<Rightarrow> ds)"

text \<open>\<^verbatim>\<open>if type(shape[0]) != list: shape = [shape]\<close>\<close>

definition wrap_shape :: "shape_arg \<Rightarrow> error + int list list" where
  "wrap_shape shape =
     (case shape of
        ShNone \<Rightarrow> Inl TypeError
      | ShFlat [] \<Rightarrow> Inl IndexError
      | ShFlat (d # ds) \<Rightarrow> Inr [d # ds]
      | ShNested [] \<Rightarrow> Inl IndexError
      | ShNested (s # ss) \<Rightarrow> Inr (s # ss))"

text \<open>
  The hashing loop
  \<^verbatim>\<open>for i, tensor in enumerate(tensors): for chunk in serialize_tensor(tensor, dtype[i]): hash.update(chunk)\<close>.
  The state of the hash object is the bytes fed to it so far.
\<close>

fun hash_update_all :: "bytes \<Rightarrow> bytes list \<Rightarrow> bytes" where
  "hash_update_all fed [] = fed"
| "hash_update_all fed (chunk # chunks) = hash_update_all (fed @ chunk) chunks"

fun hash_tensors ::
  "'v env \<Rightarrow> nat \<Rightarrow> 'v list list \<Rightarrow> ModelDatumType option list \<Rightarrow> bytes \<Rightarrow> error + bytes" where
  "hash_tensors env i [] dtype fed = Inr fed"
| "hash_tensors env i (tensor # tensors) dtype fed =
     (if i < length dtype then
        and_then (serialize_tensor env tensor (dtype ! i)) (\<lambda>chunks.
          hash_tensors env (i + 1) tensors dtype (hash_update_all fed chunks))
      else Inl IndexError)"

record RunModelResponse = SignedResponse +
  output_tensors :: "Tensor list"
  run_model_id :: string

definition RunModelResponse_validate ::
  "'v env \<Rightarrow> 'a SignedResponse_scheme \<Rightarrow> string \<Rightarrow> 'v tensors_arg \<Rightarrow> dtype_arg \<Rightarrow> shape_arg
     \<Rightarrow> string option \<Rightarrow> Policy option \<Rightarrow> bool \<Rightarrow> Ed25519PublicKey option \<Rightarrow> bool
     \<Rightarrow> error + unit" where
  "RunModelResponse_validate env self model_id tensors dtype shape policy_file policy
       validate_quote enclave_signing_key allow_simulation_mode =
     and_then (check_signed self allow_simulation_mode) (\<lambda>_.
     and_then (load_policy env self policy_file policy validate_quote) (\<lambda>policy.
     and_then (quote_validation env self policy validate_quote enclave_signing_key)
       (\<lambda>enclave_signing_key.
     and_then (decode_payload env self) (\<lambda>pb.
     and_then (verify_signature env self enclave_signing_key) (\<lambda>_.
     and_then (wrap_tensors tensors) (\<lambda>tensors.
     and_then (wrap_shape shape) (\<lambda>shape.
     and_then (hash_tensors env 0 tensors (wrap_dtype dtype) []) (\<lambda>fed.
       if sha256 env fed \<noteq> rmp_input_hash (run_model_payload pb)
       then Inl (SignatureError ''Invalid returned input_hash'')
       else if model_id \<noteq> rmp_model_id (run_model_payload pb)
       then Inl (SignatureError ''Invalid returned model_id'')
       else Inr ()))))))))"

text \<open>The reply of \<^verbatim>\<open>SendModel\<close> and \<^verbatim>\<open>RunModel\<close>: a payload and its signature.\<close>

record PbReply =
  reply_payload :: bytes
  reply_signature :: bytes

definition RunModelResponse_init ::
  "'v env \<Rightarrow> 'v tensors_arg \<Rightarrow> dtype_arg \<Rightarrow> shape_arg \<Rightarrow> PbReply \<Rightarrow> bool
     \<Rightarrow> GetSgxQuoteWithCollateralReply option \<Rightarrow> Ed25519PublicKey option \<Rightarrow> bool
     \<Rightarrow> error + RunModelResponse" where
  "RunModelResponse_init env input_tensors input_datum_type input_shape response sign
       attestation' enclave_signing_key allow_simulation_mode =
     and_then (PbPayload_FromString env (reply_payload response)) (\<lambda>pb.
       let payload' = run_model_payload pb;
           self = \<lparr>payload = None, signature = None, attestation = None,
                   output_tensors =
                     map (\<lambda>tensor.
                       Tensor_init
                         (TensorInfo_init (pti_dims (ptd_info tensor))
                            (pti_datum_type (ptd_info tensor)) (pti_index (ptd_info tensor))
                            (pti_index_name (ptd_info tensor)))
                         (ptd_bytes_data tensor))
                       (rmp_output_tensors payload'),
                   run_model_id = rmp_model_id payload'\<rparr>
       in if sign then
            let self = self\<lparr>payload := Some (reply_payload response),
                            signature := Some (reply_signature response),
                            attestation := attestation'\<rparr>
            in and_then
                 (RunModelResponse_validate env self (run_model_id self) input_tensors
                    input_datum_type input_shape None None False enclave_signing_key
                    allow_simulation_mode)
                 (\<lambda>_. Inr self)
          else Inr self)"

section \<open>The connection\<close>

subsection \<open>Channels and the server\<close>

text \<open>
  What the module does to the transport is recorded, in order, in a log: a channel
  opened by \<^verbatim>\<open>secure_channel\<close> (its handle, target, root certificates and
  \<^verbatim>\<open>grpc.ssl_target_name_override\<close>), a channel closed, a call made through a stub of a
  channel. A channel is leaked when the log opens it and never closes it.
\<close>

datatype event =
    SecureChannel nat string bytes string
  | ChannelClose nat
  | StubCall nat string

type_synonym world = "event list"

definition secure_channel :: "world \<Rightarrow> string \<Rightarrow> bytes \<Rightarrow> string \<Rightarrow> nat \<times> world" where
  "secure_channel w target root_certificates server_name =
     (length w, w @ [SecureChannel (length w) target root_certificates server_name])"

fun opened :: "world \<Rightarrow> nat list" where
  "opened [] = []"
| "opened (SecureChannel c _ _ _ # w) = c # opened w"
| "opened (_ # w) = opened w"

fun closed_channels :: "world \<Rightarrow> nat list" where
  "closed_channels [] = []"
| "closed_channels (ChannelClose c # w) = c # closed_channels w"
| "closed_channels (_ # w) = closed_channels w"

definition leaked :: "world \<Rightarrow> nat list" where
  "leaked w = filter (\<lambda>c. c \<notin> set (closed_channels w)) (opened w)"

record ClientInfo =
  uid :: string
  platform_name :: string
  platform_arch :: string
  platform_version :: string
  platform_release :: string
  user_agent :: string
  user_agent_version :: string

record PbSendModelRequest =
  smr_length :: nat
  smr_data :: bytes
  smr_sign :: bool
  smr_model_id :: "string option"
  smr_model_name :: string
  smr_client_info :: ClientInfo
  smr_tensor_inputs :: "PbTensorInfo list"
  smr_tensor_outputs :: "PbTensorInfo list"
  smr_save_model :: bool
  smr_jwt :: string

record PbRunModelRequest =
  rmr_model_id :: string
  rmr_client_info :: ClientInfo
  rmr_input_tensors :: "PbTensorData list"
  rmr_sign :: bool

text \<open>
  The server answers each call with a reply or with an \<^verbatim>\<open>RpcError\<close>. A streaming call
  whose request iterator raises is cancelled by \<^verbatim>\<open>grpc\<close> and fails with an \<^verbatim>\<open>RpcError\<close>.
\<close>

record server =
  GetServerInfo :: "RpcError + string"
  GetCertificate :: "RpcError + bytes"
  GetSgxQuoteWithCollateral :: "RpcError + GetSgxQuoteWithCollateralReply"
  SendModel :: "PbSendModelRequest list \<Rightarrow> RpcError + PbReply"
  RunModel :: "PbRunModelRequest list \<Rightarrow> RpcError + PbReply"
  DeleteModel :: "string \<Rightarrow> RpcError + unit"

definition streaming_call ::
  "('r list \<Rightarrow> RpcError + 'a) \<Rightarrow> error + 'r list \<Rightarrow> RpcError + 'a" where
  "streaming_call method requests =
     (case requests of
        Inl _ \<Rightarrow> Inl (RpcError ''Exception iterating requests!'')
      | Inr rs \<Rightarrow> method rs)"

subsection \<open>\<^verbatim>\<open>BlindAiConnection\<close>\<close>

record BlindAiConnection =
  channel :: "nat option"
  policy :: "Policy option"
  stub :: "nat option"
  enclave_signing_key :: "Ed25519PublicKey option"
  simulation_mode :: bool
  disable_untrusted_server_cert_check :: bool
  conn_attestation :: "GetSgxQuoteWithCollateralReply option"
  server_version :: "string option"
  client_info :: ClientInfo
  closed :: bool

text \<open>\<^verbatim>\<open>str\<close> of an integer, for \<^verbatim>\<open>addr + ":" + str(port)\<close>.\<close>

function str_nat :: "nat \<Rightarrow> string" where
  "str_nat n =
     (if n < 10 then [''0123456789'' ! n]
      else str_nat (n div 10) @ [''0123456789'' ! (n mod 10)])"
  by pat_completeness auto
termination
  by (relation "measure id") auto

declare str_nat.simps [simp del]

definition str_int :: "int \<Rightarrow> string" where
  "str_int i = (if i < 0 then ''-'' @ str_nat (nat (- i)) else str_nat (nat i))"

definition rpc_failed ::
  "'v env \<Rightarrow> nat \<Rightarrow> world \<Rightarrow> RpcError \<Rightarrow> (error + 'a) \<times> world" where
  "rpc_failed env channel' w rpc_error =
     (Inl (ConnectionError (check_rpc_exception env rpc_error)), w @ [ChannelClose channel'])"

text \<open>
  The untrusted server's credentials: fetched from the server when the certificate
  check is disabled, read from the certificate file otherwise.
\<close>

definition untrusted_server_creds ::
  "'v env \<Rightarrow> bool \<Rightarrow> string \<Rightarrow> int \<Rightarrow> string option \<Rightarrow> error + bytes" where
  "untrusted_server_creds env disable_check addr untrusted_port certificate =
     (if disable_check then
        (case ssl_get_server_certificate env addr untrusted_port of
           Inl socket_error \<Rightarrow> Inl (ConnectionError (check_socket_exception env socket_error))
         | Inr untrusted_server_cert \<Rightarrow> Inr untrusted_server_cert)
      else read_file env certificate)"

text \<open>An exception that no handler catches, and one that \<^verbatim>\<open>except RpcError\<close> catches.\<close>

definition or_raise ::
  "error + 'a \<Rightarrow> world \<Rightarrow> ('a \<Rightarrow> (error + 'b) \<times> world) \<Rightarrow> (error + 'b) \<times> world" where
  "or_raise r w f = (case r of Inl e \<Rightarrow> (Inl e, w) | Inr x \<Rightarrow> f x)"

definition or_rpc_failed ::
  "'v env \<Rightarrow> nat \<Rightarrow> world \<Rightarrow> RpcError + 'a \<Rightarrow> ('a \<Rightarrow> (error + 'b) \<times> world)
     \<Rightarrow> (error + 'b) \<times> world" where
  "or_rpc_failed env channel' w r f =
     (case r of Inl rpc_error \<Rightarrow> rpc_failed env channel' w rpc_error | Inr x \<Rightarrow> f x)"

text \<open>
  The end of the \<^verbatim>\<open>try\<close> block, once \<^verbatim>\<open>server_cert\<close> is known: the discovery channel
  is closed, the signing key derived, the attested channel opened.
\<close>

definition open_attested ::
  "'v env \<Rightarrow> BlindAiConnection \<Rightarrow> world \<Rightarrow> nat \<Rightarrow> bytes \<Rightarrow> string \<Rightarrow> string
     \<Rightarrow> (error + BlindAiConnection) \<times> world" where
  "open_attested env self w channel' server_cert' attested_client_to_enclave server_name =
     (let w = w @ [ChannelClose channel'] in
      or_raise (get_enclave_signing_key env server_cert') w (\<lambda>key.
        let (channel', w) = secure_channel w attested_client_to_enclave server_cert' server_name
        in (Inr (self\<lparr>enclave_signing_key := Some key, stub := Some channel',
                      channel := Some channel'\<rparr>), w)))"

definition version_error :: error where
  "version_error = VersionError
     ''Incompatible client/server versions. Please use the correct client for your server.''"

text \<open>
  \<^verbatim>\<open>_connect_server\<close>. The only handler of the \<^verbatim>\<open>try\<close> block is
  \<^verbatim>\<open>except RpcError\<close> (\<open>rpc_failed\<close>); every other exception leaves the block as it is.
  The connection under construction is returned on success only: the constructor raises
  otherwise.
\<close>

definition connect_server ::
  "'v env \<Rightarrow> server \<Rightarrow> BlindAiConnection \<Rightarrow> world \<Rightarrow> string \<Rightarrow> string \<Rightarrow> string option
     \<Rightarrow> string option \<Rightarrow> bool \<Rightarrow> int \<Rightarrow> int \<Rightarrow> (error + BlindAiConnection) \<times> world" where
  "connect_server env srv self w addr server_name policy' certificate simulation
       untrusted_port attested_port =
     (let self = self\<lparr>simulation_mode := simulation,
                      disable_untrusted_server_cert_check := simulation\<rparr>;
          addr = strip_https env addr;
          untrusted_client_to_enclave = addr @ '':'' @ str_int untrusted_port;
          attested_client_to_enclave = addr @ '':'' @ str_int attested_port
      in
      or_raise
        (if \<not> simulation_mode self
         then and_then (Policy_from_file env policy') (\<lambda>p. Inr (self\<lparr>policy := Some p\<rparr>))
         else Inr self) w (\<lambda>self.
      or_raise
        (untrusted_server_creds env (disable_untrusted_server_cert_check self) addr
           untrusted_port certificate) w (\<lambda>creds.
      let (channel', w) = secure_channel w untrusted_client_to_enclave creds server_name;
          w = w @ [StubCall channel' ''GetServerInfo'']
      in
      or_rpc_failed env channel' w (GetServerInfo srv) (\<lambda>version.
      let self = self\<lparr>server_version := Some version\<rparr> in
      if \<not> supported_server_version env version then (Inl version_error, w)
      else if simulation_mode self then
        (let w = w @ [StubCall channel' ''GetCertificate''] in
         or_rpc_failed env channel' w (GetCertificate srv) (\<lambda>enclave_tls_certificate.
           open_attested env self w channel' (encode_certificate env enclave_tls_certificate)
             attested_client_to_enclave server_name))
      else
        (let w = w @ [StubCall channel' ''GetSgxQuoteWithCollateral''] in
         or_rpc_failed env channel' w (GetSgxQuoteWithCollateral srv) (\<lambda>att.
         let self = self\<lparr>conn_attestation := Some att\<rparr> in
         or_raise
           (verify_dcap_attestation env (quote att) (collateral att) (enclave_held_data att))
           w (\<lambda>claims.
         or_raise (verify_claims env claims (policy self)) w (\<lambda>_.
         if \<not> list_all (\<lambda>b. b < 0x80) (get_server_cert claims)
         then (Inl UnicodeDecodeError, w)
         else open_attested env self w channel' (get_server_cert claims)
                attested_client_to_enclave server_name))))))))"

subsection \<open>The constructor\<close>

text \<open>
  \<^verbatim>\<open>__init__\<close> sets the two globals, builds the client fingerprint from the host and
  calls \<^verbatim>\<open>_connect_server\<close> on the new object, whose other attributes have the
  class's defaults.
\<close>

record platform =
  hostname :: string
  username :: string
  uname_system :: string
  uname_machine :: string
  uname_version :: string
  uname_release :: string
  app_version :: string

definition JWT :: string where
  "JWT = ''JWT''"

definition encode_utf8 :: "string \<Rightarrow> bytes" where
  "encode_utf8 s = map of_char s"

definition hex :: "bytes \<Rightarrow> string" where
  "hex bs = concat (map (\<lambda>b. [''0123456789abcdef'' ! (unat b div 16),
                               ''0123456789abcdef'' ! (unat b mod 16)]) bs)"

definition BlindAiConnection_init ::
  "'v env \<Rightarrow> platform \<Rightarrow> server \<Rightarrow> world \<Rightarrow> string \<Rightarrow> string \<Rightarrow> string option \<Rightarrow> string option
     \<Rightarrow> bool \<Rightarrow> int \<Rightarrow> int \<Rightarrow> (error + BlindAiConnection) \<times> world" where
  "BlindAiConnection_init env uname srv w addr server_name policy' certificate simulation
       untrusted_port attested_port =
     connect_server env srv
       \<lparr>channel = None, policy = None, stub = None, enclave_signing_key = None,
        simulation_mode = False, disable_untrusted_server_cert_check = False,
        conn_attestation = None, server_version = None,
        client_info =
          \<lparr>uid = hex (sha256 env (encode_utf8 (hostname uname @ ''-'' @ username uname))),
           platform_name = uname_system uname,
           platform_arch = uname_machine uname,
           platform_version = uname_version uname,
           platform_release = uname_release uname,
           user_agent = ''blindai_python'',
           user_agent_version = app_version uname\<rparr>,
        closed = False\<rparr>
       w addr server_name policy' certificate simulation untrusted_port attested_port"

subsection \<open>The operations\<close>

definition raise_exception_if_conn_closed ::
  "(BlindAiConnection \<Rightarrow> world \<Rightarrow> (error + 'a) \<times> world)
     \<Rightarrow> BlindAiConnection \<Rightarrow> world \<Rightarrow> (error + 'a) \<times> world" where
  "raise_exception_if_conn_closed f self w =
     (if closed self then (Inl (ValueError ''Illegal operation on closed connection.''), w)
      else f self w)"

text \<open>
  \<^verbatim>\<open>_get_input_output_tensors\<close>. An input is the list \<^verbatim>\<open>[dims, datum_type]\<close>, the
  shape a tuple, an output a datum type: \<^verbatim>\<open>type(tensor_inputs[0]) != list\<close> holds for
  the pair built from \<^verbatim>\<open>shape\<close> and \<^verbatim>\<open>datum_type\<close> and not for a list of inputs, and
  \<^verbatim>\<open>type(tensor_outputs[0]) != list\<close> always holds, so that the list of outputs is taken
  as one output whose datum type is its first element.
\<close>

definition get_input_output_tensors ::
  "(int list \<times> ModelDatumType) list option \<Rightarrow> ModelDatumType list option \<Rightarrow> int list option
     \<Rightarrow> ModelDatumType option \<Rightarrow> ModelDatumType option
     \<Rightarrow> error + PbTensorInfo list \<times> PbTensorInfo list" where
  "get_input_output_tensors tensor_inputs tensor_outputs shape datum_type' dtype_out =
     (case (tensor_inputs, tensor_outputs) of
        (Some ins, Some outs) \<Rightarrow>
          (if ins = [] \<or> outs = [] then Inl IndexError
           else Inr
             (map (\<lambda>(i, tensor_input).
                    \<lparr>pti_dims = fst tensor_input, pti_datum_type = Some (snd tensor_input),
                     pti_index = i, pti_index_name = []\<rparr>) (enumerate 0 ins),
              [\<lparr>pti_dims = [], pti_datum_type = Some (hd outs), pti_index = 0,
                pti_index_name = []\<rparr>]))
      | _ \<Rightarrow>
          Inr ([\<lparr>pti_dims = (case shape of None \<Rightarrow> [] | Some d \<Rightarrow> d),
                 pti_datum_type = datum_type', pti_index = 0, pti_index_name = []\<rparr>],
               [\<lparr>pti_dims = [], pti_datum_type = dtype_out, pti_index = 0,
                 pti_index_name = []\<rparr>]))"

record upload_model_args =
  um_model :: string
  um_tensor_inputs :: "(int list \<times> ModelDatumType) list option"
  um_tensor_outputs :: "ModelDatumType list option"
  um_shape :: "int list option"
  um_dtype :: "ModelDatumType option"
  um_dtype_out :: "ModelDatumType option"
  um_sign :: bool
  um_model_name :: "string option"
  um_save_model :: bool
  um_model_id :: "string option"

definition upload_model_body ::
  "'v env \<Rightarrow> server \<Rightarrow> upload_model_args \<Rightarrow> BlindAiConnection \<Rightarrow> world
     \<Rightarrow> (error + UploadModelResponse) \<times> world" where
  "upload_model_body env srv args self w =
     (let model_name = (case um_model_name args of
                          None \<Rightarrow> basename env (um_model args) | Some n \<Rightarrow> n)
      in
      or_raise (read_file env (Some (um_model args))) w (\<lambda>data.
      or_raise (get_input_output_tensors (um_tensor_inputs args) (um_tensor_outputs args)
                  (um_shape args) (um_dtype args) (um_dtype_out args)) w (\<lambda>(inputs, outputs).
      or_raise (getattr (stub self)) w (\<lambda>stub'.
      let requests =
            map (\<lambda>chunk.
                  \<lparr>smr_length = length data, smr_data = chunk, smr_sign = um_sign args,
                   smr_model_id = um_model_id args, smr_model_name = model_name,
                   smr_client_info = client_info self, smr_tensor_inputs = inputs,
                   smr_tensor_outputs = outputs, smr_save_model = um_save_model args,
                   smr_jwt = JWT\<rparr>)
              (create_byte_chunk env data);
          w = w @ [StubCall stub' ''SendModel'']
      in
      case SendModel srv requests of
        Inl rpc_error \<Rightarrow> (Inl (ConnectionError (check_rpc_exception env rpc_error)), w)
      | Inr response \<Rightarrow>
      or_raise (PbPayload_FromString env (reply_payload response)) w (\<lambda>pb.
      let ret = \<lparr>payload = None, signature = None, attestation = None,
                 upload_model_id = Some (smp_model_id (send_model_payload pb))\<rparr>
      in
      if um_sign args then
        (let ret = ret\<lparr>payload := Some (reply_payload response),
                       signature := Some (reply_signature response),
                       attestation := conn_attestation self\<rparr>
         in or_raise
              (UploadModelResponse_validate env ret (sha256 env data) None None False
                 (enclave_signing_key self) (simulation_mode self))
              w (\<lambda>_. (Inr ret, w)))
      else (Inr ret, w))))))"

definition upload_model ::
  "'v env \<Rightarrow> server \<Rightarrow> upload_model_args \<Rightarrow> BlindAiConnection \<Rightarrow> world
     \<Rightarrow> (error + UploadModelResponse) \<times> world" where
  "upload_model env srv args = raise_exception_if_conn_closed (upload_model_body env srv args)"

text \<open>
  \<^verbatim>\<open>run_model\<close>, for inputs that are Python lists. \<^verbatim>\<open>torch\<close> is a local name of the
  function, bound only when the package is installed, and every path through the
  \<^verbatim>\<open>if\<close> chain evaluates \<^verbatim>\<open>torch.Tensor\<close> once \<^verbatim>\<open>tensors[0]\<close> has been read.
\<close>

record 'v run_model_args =
  rm_model_id :: string
  rm_tensors :: "'v tensors_arg"
  rm_dtype :: dtype_arg
  rm_shape :: shape_arg
  rm_sign :: bool

definition index_dtype :: "dtype_arg \<Rightarrow> nat \<Rightarrow> error + ModelDatumType option" where
  "index_dtype dtype i =
     (case dtype of
        DtMany ds \<Rightarrow> if i < length ds then Inr (ds ! i) else Inl IndexError
      | _ \<Rightarrow> Inl TypeError)"

definition index_shape :: "shape_arg \<Rightarrow> nat \<Rightarrow> error + int list" where
  "index_shape shape i =
     (case shape of
        ShNested ss \<Rightarrow> if i < length ss then Inr (ss ! i) else Inl IndexError
      | _ \<Rightarrow> Inl TypeError)"

text \<open>
  The request iterator: one request per chunk of each tensor. \<^verbatim>\<open>dtype[i]\<close> is read
  once per tensor, \<^verbatim>\<open>shape[i]\<close> once per chunk.
\<close>

fun run_model_requests ::
  "'v env \<Rightarrow> string \<Rightarrow> ClientInfo \<Rightarrow> bool \<Rightarrow> dtype_arg \<Rightarrow> shape_arg \<Rightarrow> nat \<Rightarrow> 'v list list
     \<Rightarrow> error + PbRunModelRequest list" where
  "run_model_requests env model_id client_info' sign dtype shape i [] = Inr []"
| "run_model_requests env model_id client_info' sign dtype shape i (tensor # tensors) =
     and_then (index_dtype dtype i) (\<lambda>dt.
     and_then (serialize_tensor env tensor dt) (\<lambda>chunks.
     and_then (if chunks = [] then Inr [] else index_shape shape i) (\<lambda>dims'.
     and_then (run_model_requests env model_id client_info' sign dtype shape (i + 1) tensors)
       (\<lambda>rest.
       Inr (map (\<lambda>chunk.
                  \<lparr>rmr_model_id = model_id, rmr_client_info = client_info',
                   rmr_input_tensors =
                     [\<lparr>ptd_info = \<lparr>pti_dims = dims', pti_datum_type = dt, pti_index = i,
                                   pti_index_name = []\<rparr>,
                       ptd_bytes_data = chunk\<rparr>],
                   rmr_sign = sign\<rparr>) chunks @ rest)))))"

definition run_model_body ::
  "'v env \<Rightarrow> server \<Rightarrow> 'v run_model_args \<Rightarrow> BlindAiConnection \<Rightarrow> world
     \<Rightarrow> (error + RunModelResponse) \<times> world" where
  "run_model_body env srv args self w =
     or_raise (wrap_tensors (rm_tensors args)) w (\<lambda>tensors.
     or_raise (if is_torch_installed env then Inr () else Inl UnboundLocalError) w (\<lambda>_.
     or_raise
       (case rm_tensors args of
          Flat _ \<Rightarrow> and_then (wrap_shape (rm_shape args)) (\<lambda>shape.
                      Inr (DtMany (wrap_dtype (rm_dtype args)), ShNested shape))
        | Nested _ \<Rightarrow> Inr (rm_dtype args, rm_shape args)) w (\<lambda>(dtype, shape).
     or_raise (getattr (stub self)) w (\<lambda>stub'.
     let w = w @ [StubCall stub' ''RunModel''] in
     case streaming_call (RunModel srv)
            (run_model_requests env (rm_model_id args) (client_info self) (rm_sign args) dtype shape
               0 tensors) of
       Inl rpc_error \<Rightarrow> (Inl (ConnectionError (check_rpc_exception env rpc_error)), w)
     | Inr response \<Rightarrow>
         (RunModelResponse_init env (Nested tensors) dtype shape response (rm_sign args)
            (conn_attestation self) (enclave_signing_key self) (simulation_mode self), w)))))"

definition run_model ::
  "'v env \<Rightarrow> server \<Rightarrow> 'v run_model_args \<Rightarrow> BlindAiConnection \<Rightarrow> world
     \<Rightarrow> (error + RunModelResponse) \<times> world" where
  "run_model env srv args = raise_exception_if_conn_closed (run_model_body env srv args)"

datatype DeleteModelResponse = DeleteModelResponse

definition delete_model_body ::
  "'v env \<Rightarrow> server \<Rightarrow> string \<Rightarrow> BlindAiConnection \<Rightarrow> world
     \<Rightarrow> (error + DeleteModelResponse) \<times> world" where
  "delete_model_body env srv model_id self w =
     or_raise (getattr (stub self)) w (\<lambda>stub'.
     let w = w @ [StubCall stub' ''DeleteModel''] in
     case DeleteModel srv model_id of
       Inl rpc_error \<Rightarrow> (Inl (ConnectionError (check_rpc_exception env rpc_error)), w)
     | Inr _ \<Rightarrow> (Inr DeleteModelResponse, w))"

definition delete_model ::
  "'v env \<Rightarrow> server \<Rightarrow> string \<Rightarrow> BlindAiConnection \<Rightarrow> world
     \<Rightarrow> (error + DeleteModelResponse) \<times> world" where
  "delete_model env srv model_id =
     raise_exception_if_conn_closed (delete_model_body env srv model_id)"

text \<open>\<^verbatim>\<open>close\<close> returns nothing; it changes the connection and the transport.\<close>

definition close :: "BlindAiConnection \<Rightarrow> world \<Rightarrow> (error + unit) \<times> BlindAiConnection \<times> world" where
  "close self w =
     (if \<not> closed self then
        (case channel self of
           None \<Rightarrow> (Inl AttributeError, self, w)
         | Some channel' \<Rightarrow>
             (Inr (),
              self\<lparr>closed := True, channel := None, stub := None, policy := None,
                   server_version := None\<rparr>,
              w @ [ChannelClose channel']))
      else (Inr (), self, w))"

subsection \<open>A session: a sequence of calls on one connection\<close>

datatype 'v operation =
    Op_upload_model upload_model_args
  | Op_run_model "'v run_model_args"
  | Op_delete_model string
  | Op_close

datatype outcome =
    Out_upload_model UploadModelResponse
  | Out_run_model RunModelResponse
  | Out_delete_model DeleteModelResponse
  | Out_close

definition returning :: "('a \<Rightarrow> outcome) \<Rightarrow> error + 'a \<Rightarrow> error + outcome" where
  "returning c r = (case r of Inl e \<Rightarrow> Inl e | Inr x \<Rightarrow> Inr (c x))"

fun call ::
  "'v env \<Rightarrow> server \<Rightarrow> 'v operation \<Rightarrow> BlindAiConnection \<times> world
     \<Rightarrow> (error + outcome) \<times> BlindAiConnection \<times> world" where
  "call env srv (Op_upload_model args) (self, w) =
     (let (r, w') = upload_model env srv args self w in (returning Out_upload_model r, self, w'))"
| "call env srv (Op_run_model args) (self, w) =
     (let (r, w') = run_model env srv args self w in (returning Out_run_model r, self, w'))"
| "call env srv (Op_delete_model model_id) (self, w) =
     (let (r, w') = delete_model env srv model_id self w
      in (returning Out_delete_model r, self, w'))"
| "call env srv Op_close (self, w) =
     (let (r, self', w') = close self w in (returning (\<lambda>_. Out_close) r, self', w'))"

fun calls ::
  "'v env \<Rightarrow> server \<Rightarrow> 'v operation list \<Rightarrow> BlindAiConnection \<times> world
     \<Rightarrow> (error + outcome) list \<times> BlindAiConnection \<times> world" where
  "calls env srv [] st = ([], st)"
| "calls env srv (op # ops) st =
     (let (r, st') = call env srv op st;
          (rs, st'') = calls env srv ops st'
      in (r # rs, st''))"

section \<open>A concrete environment\<close>

text \<open>
  The theorems below hold for every environment and every server. To run the model on
  concrete inputs, the parameters are instantiated here with small stand-ins: a message
  codec of length-prefixed fields, which like any wire format rejects a byte string
  whose announced lengths exceed what follows; a signature that is the key followed by
  the message; a two-byte digest; a claims verifier that reads the policy it is given, so
  that \<^verbatim>\<open>None\<close> in its place raises \<open>AttributeError\<close>. Nothing proved for every
  environment depends on them.
\<close>

definition put_field :: "bytes \<Rightarrow> bytes" where
  "put_field f = of_nat (length f) # f"

definition take_field :: "bytes \<Rightarrow> (bytes \<times> bytes) option" where
  "take_field b =
     (case b of
        [] \<Rightarrow> None
      | n # rest \<Rightarrow>
          if unat n \<le> length rest then Some (take (unat n) rest, drop (unat n) rest)
          else None)"

definition decode_ascii :: "bytes \<Rightarrow> string" where
  "decode_ascii b = map (\<lambda>x. char_of (unat x)) b"

definition test_PbPayload_FromString :: "bytes \<Rightarrow> error + PbPayload" where
  "test_PbPayload_FromString b =
     (let none_sent = \<lparr>smp_model_hash = [], smp_model_id = []\<rparr>;
          none_run = \<lparr>rmp_output_tensors = [], rmp_input_hash = [], rmp_model_id = []\<rparr>
      in case b of
        [] \<Rightarrow> Inr \<lparr>send_model_payload = none_sent, run_model_payload = none_run\<rparr>
      | tag # rest \<Rightarrow>
          (case take_field rest of
             None \<Rightarrow> Inl DecodeError
           | Some (h, name) \<Rightarrow>
               if tag = 1 then
                 Inr \<lparr>send_model_payload =
                        \<lparr>smp_model_hash = h, smp_model_id = decode_ascii name\<rparr>,
                      run_model_payload = none_run\<rparr>
               else if tag = 2 then
                 Inr \<lparr>send_model_payload = none_sent,
                      run_model_payload =
                        \<lparr>rmp_output_tensors = [], rmp_input_hash = h,
                         rmp_model_id = decode_ascii name\<rparr>\<rparr>
               else Inl DecodeError))"

definition test_ResponseProof_SerializeToString :: "ResponseProof \<Rightarrow> bytes" where
  "test_ResponseProof_SerializeToString m =
     put_field (rp_payload m) @ put_field (rp_signature m)
       @ put_field (quote (rp_attestation m)) @ put_field (collateral (rp_attestation m))
       @ put_field (enclave_held_data (rp_attestation m))"

definition test_ResponseProof_FromString :: "bytes \<Rightarrow> error + ResponseProof" where
  "test_ResponseProof_FromString b =
     (case take_field b of None \<Rightarrow> Inl DecodeError | Some (p, b1) \<Rightarrow>
     (case take_field b1 of None \<Rightarrow> Inl DecodeError | Some (s, b2) \<Rightarrow>
     (case take_field b2 of None \<Rightarrow> Inl DecodeError | Some (q, b3) \<Rightarrow>
     (case take_field b3 of None \<Rightarrow> Inl DecodeError | Some (c, b4) \<Rightarrow>
     (case take_field b4 of None \<Rightarrow> Inl DecodeError | Some (h, b5) \<Rightarrow>
        if b5 = [] then
          Inr \<lparr>rp_payload = p, rp_signature = s,
               rp_attestation = \<lparr>collateral = c, quote = q, enclave_held_data = h\<rparr>\<rparr>
        else Inl DecodeError)))))"

definition test_signature :: "Ed25519PublicKey \<Rightarrow> bytes \<Rightarrow> bytes" where
  "test_signature k p = (case k of Ed25519PublicKey kb \<Rightarrow> kb @ p)"

definition test_sha256 :: "bytes \<Rightarrow> bytes" where
  "test_sha256 b = [sum_list b, of_nat (length b)]"

text \<open>
  Modelled from the spec: \<^verbatim>\<open>blindai.utils.serialize.serialize_tensor\<close> and
  \<^verbatim>\<open>blindai.utils.utils.create_byte_chunk\<close> are not in the source file. Section 4.3:
  the values are flattened into the byte width the datum type implies and the result is
  split into chunks no larger than a fixed limit. The stand-in encodes integers, little
  endian, in \<open>dt_per_type\<close> bytes each (the two float types are left out), with a limit of
  four bytes.
\<close>

function chunks_of :: "nat \<Rightarrow> bytes \<Rightarrow> bytes list" where
  "chunks_of n b = (if n = 0 \<or> b = [] then [] else take n b # chunks_of n (drop n b))"
  by pat_completeness auto
termination
  by (relation "measure (\<lambda>(n, b). length b)") auto

declare chunks_of.simps [simp del]

definition encode_int :: "nat \<Rightarrow> int \<Rightarrow> bytes" where
  "encode_int width v = map (\<lambda>i. of_int (v div 256 ^ i)) [0..<width]"

definition test_create_byte_chunk :: "bytes \<Rightarrow> bytes list" where
  "test_create_byte_chunk b = chunks_of 4 b"

definition test_serialize_tensor :: "int list \<Rightarrow> ModelDatumType option \<Rightarrow> error + bytes list" where
  "test_serialize_tensor tensor dt =
     (case dt of
        None \<Rightarrow> Inl TypeError
      | Some t \<Rightarrow>
          if t = F32 \<or> t = F64 then Inl EncodingError
          else Inr (test_create_byte_chunk (concat (map (encode_int (dt_per_type t)) tensor))))"

definition test_env :: "int env" where
  "test_env =
     \<lparr>verify = (\<lambda>k s p. s = test_signature k p),
      sha256 = test_sha256,
      verify_dcap_attestation = (\<lambda>q c h.
        if q = [] then Inl (AttestationError ''quote'')
        else Inr \<lparr>server_cert = h, sgx_mrenclave = ''mrenclave''\<rparr>),
      verify_claims = (\<lambda>c p.
        case p of
          None \<Rightarrow> Inl AttributeError
        | Some q \<Rightarrow> if q = Policy [1] then Inr () else Inl (AttestationError ''policy'')),
      get_enclave_signing_key = (\<lambda>cert. Inr (Ed25519PublicKey cert)),
      Policy_from_file = (\<lambda>f.
        if f = Some ''policy.toml'' then Inr (Policy [1]) else Inl (FileNotFoundError ''policy'')),
      PbPayload_FromString = test_PbPayload_FromString,
      ResponseProof_SerializeToString = test_ResponseProof_SerializeToString,
      ResponseProof_FromString = test_ResponseProof_FromString,
      serialize_tensor = test_serialize_tensor,
      create_byte_chunk = test_create_byte_chunk,
      encode_certificate = (\<lambda>c. c),
      strip_https = (\<lambda>a. if take 8 a = ''https://'' then drop 8 a else a),
      supported_server_version = (\<lambda>v. v = ''0.5.0''),
      check_rpc_exception = (\<lambda>e. case e of RpcError d \<Rightarrow> d),
      check_socket_exception = (\<lambda>e. case e of SocketError d \<Rightarrow> d),
      ssl_get_server_certificate = (\<lambda>a port. Inr [0x2D]),
      read_file = (\<lambda>f.
        if f = Some ''host_server.pem'' then Inr [0x2D]
        else if f = Some ''model.onnx'' then Inr [7, 7, 7]
        else Inl (FileNotFoundError ''file'')),
      basename = (\<lambda>f. f),
      is_torch_installed = True\<rparr>"

text \<open>
  The stand-in server signs with the key its attestation announces. \<^verbatim>\<open>SendModel\<close>
  returns the digest of the model bytes it received, \<^verbatim>\<open>RunModel\<close> the digest of the
  tensor bytes it received and the model id, each with its signature.
\<close>

definition test_reply :: "bytes \<Rightarrow> PbReply" where
  "test_reply p =
     \<lparr>reply_payload = p, reply_signature = test_signature (Ed25519PublicKey [5]) p\<rparr>"

definition test_server :: "string \<Rightarrow> server" where
  "test_server version =
     \<lparr>GetServerInfo = Inr version,
      GetCertificate = Inr [5],
      GetSgxQuoteWithCollateral = Inr \<lparr>collateral = [2], quote = [3], enclave_held_data = [5]\<rparr>,
      SendModel = (\<lambda>requests.
        Inr (test_reply (1 # put_field (test_sha256 (concat (map smr_data requests)))
                           @ [0x6D]))),
      RunModel = (\<lambda>requests.
        if requests = [] then Inl (RpcError ''no input'')
        else Inr (test_reply
          (2 # put_field (test_sha256
                 (concat (map (\<lambda>r. concat (map ptd_bytes_data (rmr_input_tensors r)))
                    requests)))
             @ map of_char (rmr_model_id (hd requests))))),
      DeleteModel = (\<lambda>model_id. Inr ())\<rparr>"

definition test_platform :: platform where
  "test_platform =
     \<lparr>hostname = ''host'', username = ''user'', uname_system = ''Linux'',
      uname_machine = ''x86_64'', uname_version = ''1'', uname_release = ''6'',
      app_version = ''0.5.0''\<rparr>"

text \<open>
  Two responses of an attested enclave whose signing key is \<open>test_key\<close>: one to the
  upload of a model of hash \<open>[9, 9]\<close>, one to a run of model \<open>m\<close> on the tensors
  \<open>[[1, 2], [3]]\<close> of type \<open>U8\<close>, whose serialized bytes are \<open>[1, 2, 3]\<close>.
\<close>

definition test_key :: Ed25519PublicKey where
  "test_key = Ed25519PublicKey [5]"

definition test_attestation :: GetSgxQuoteWithCollateralReply where
  "test_attestation = \<lparr>collateral = [2], quote = [3], enclave_held_data = [5]\<rparr>"

definition test_upload_payload :: bytes where
  "test_upload_payload = [1, 2, 9, 9, 0x6D]"

definition test_run_payload :: bytes where
  "test_run_payload = [2, 2, 6, 3, 0x6D]"

definition test_upload_response :: SignedResponse where
  "test_upload_response =
     \<lparr>payload = Some test_upload_payload,
      signature = Some (test_signature test_key test_upload_payload),
      attestation = Some test_attestation\<rparr>"

definition test_run_response :: SignedResponse where
  "test_run_response =
     \<lparr>payload = Some test_run_payload,
      signature = Some (test_signature test_key test_run_payload),
      attestation = Some test_attestation\<rparr>"

text \<open>The connection a successful bootstrap in hardware mode leaves behind.\<close>

definition test_connection :: BlindAiConnection where
  "test_connection =
     \<lparr>channel = Some 4, policy = Some (Policy [1]), stub = Some 4,
      enclave_signing_key = Some test_key, simulation_mode = False,
      disable_untrusted_server_cert_check = False,
      conn_attestation = Some test_attestation, server_version = Some ''0.5.0'',
      client_info =
        \<lparr>uid = ''aa09'', platform_name = ''Linux'', platform_arch = ''x86_64'',
         platform_version = ''1'', platform_release = ''6'', user_agent = ''blindai_python'',
         user_agent_version = ''0.5.0''\<rparr>,
      closed = False\<rparr>"

section \<open>Properties\<close>

lemma and_then_simps [simp]:
  "and_then (Inl e) f = Inl e"
  "and_then (Inr x) f = f x"
  by (simp_all add: and_then_def)

subsection \<open>The simulation gate\<close>

lemma check_signed_simulation:
  "is_simulation_mode self \<Longrightarrow>
     check_signed self False =
       Inl (SignatureError (if is_signed self then ''Response was produced using simulation mode''
                            else ''Response is not signed''))"
  by (simp add: check_signed_def)

lemma steps_in_simulation:
  assumes "is_simulation_mode self"
  shows "load_policy env self pf pol vq = Inr pol"
    and "quote_validation env self pol vq key = Inr key"
    and "verify_signature env self key = Inr ()"
  using assms
  by (simp_all add: load_policy_def quote_validation_def verify_signature_def
      is_simulation_mode_def)

text \<open>
  C3. A response in simulation mode (no attestation) is refused with \<open>SignatureError\<close>
  by both \<^verbatim>\<open>validate\<close> methods when \<^verbatim>\<open>allow_simulation_mode\<close> is false, whatever the
  other arguments. When it is true, the response is accepted as soon as it is signed,
  its payload decodes and the content descriptors agree: no attestation, policy, key or
  signature check stands in the way.
\<close>

theorem simulation_gate:
  assumes "is_simulation_mode self"
  shows "UploadModelResponse_validate env self model_hash pf pol vq key False =
           Inl (SignatureError (if is_signed self
                                then ''Response was produced using simulation mode''
                                else ''Response is not signed''))
       \<and> RunModelResponse_validate env self model_id tensors dtype shape pf pol vq key False =
           Inl (SignatureError (if is_signed self
                                then ''Response was produced using simulation mode''
                                else ''Response is not signed''))
       \<and> (is_signed self \<and> decode_payload env self = Inr pb
            \<and> model_hash = smp_model_hash (send_model_payload pb)
          \<longrightarrow> UploadModelResponse_validate env self model_hash pf pol vq key True = Inr ())
       \<and> (is_signed self \<and> decode_payload env self = Inr pb
            \<and> wrap_tensors tensors = Inr ts \<and> wrap_shape shape = Inr ss
            \<and> hash_tensors env 0 ts (wrap_dtype dtype) [] = Inr fed
            \<and> sha256 env fed = rmp_input_hash (run_model_payload pb)
            \<and> model_id = rmp_model_id (run_model_payload pb)
          \<longrightarrow> RunModelResponse_validate env self model_id tensors dtype shape pf pol vq key True
                = Inr ())"
  using assms
  by (simp add: UploadModelResponse_validate_def RunModelResponse_validate_def
      check_signed_simulation steps_in_simulation check_signed_def)

theorem simulation_gate_witness:
  "is_simulation_mode (test_upload_response\<lparr>attestation := None\<rparr>)
   \<and> is_simulation_mode (test_run_response\<lparr>attestation := None\<rparr>)
   \<and> UploadModelResponse_validate test_env (test_upload_response\<lparr>attestation := None\<rparr>)
        [9, 9] None None True None False
      = Inl (SignatureError ''Response was produced using simulation mode'')
   \<and> RunModelResponse_validate test_env (test_run_response\<lparr>attestation := None\<rparr>)
        ''m'' (Nested [[1, 2], [3]]) (DtOne U8) (ShNested [[2], [1]]) None None True None False
      = Inl (SignatureError ''Response was produced using simulation mode'')
   \<and> UploadModelResponse_validate test_env (test_upload_response\<lparr>attestation := None\<rparr>)
        [9, 9] None None True None True
      = Inr ()
   \<and> RunModelResponse_validate test_env (test_run_response\<lparr>attestation := None\<rparr>)
        ''m'' (Nested [[1, 2], [3]]) (DtMany [Some U8, Some U8]) (ShNested [[2], [1]])
        None None True None True
      = Inr ()"
proof -
  let ?u = "test_upload_response\<lparr>attestation := None\<rparr>"
  let ?r = "test_run_response\<lparr>attestation := None\<rparr>"
  have su: "is_simulation_mode ?u" and sr: "is_simulation_mode ?r"
    by (simp_all add: is_simulation_mode_def)
  have signed: "is_signed ?u" "is_signed ?r"
    by (simp_all add: is_signed_def test_upload_response_def test_run_response_def)
  have du: "decode_payload test_env ?u =
              Inr \<lparr>send_model_payload = \<lparr>smp_model_hash = [9, 9], smp_model_id = ''m''\<rparr>,
                   run_model_payload =
                     \<lparr>rmp_output_tensors = [], rmp_input_hash = [], rmp_model_id = []\<rparr>\<rparr>"
    by code_simp
  have dr: "decode_payload test_env ?r =
              Inr \<lparr>send_model_payload = \<lparr>smp_model_hash = [], smp_model_id = []\<rparr>,
                   run_model_payload =
                     \<lparr>rmp_output_tensors = [], rmp_input_hash = [6, 3], rmp_model_id = ''m''\<rparr>\<rparr>"
    by code_simp
  have ht: "hash_tensors test_env 0 [[1, 2], [3]] (wrap_dtype (DtMany [Some U8, Some U8])) []
              = Inr [1, 2, 3]"
    by code_simp
  have wt: "wrap_tensors (Nested [[1, 2], [3 :: int]]) = Inr [[1, 2], [3]]"
    and ws: "wrap_shape (ShNested [[2], [1]]) = Inr [[2], [1]]"
    by (simp_all add: wrap_tensors_def wrap_shape_def)
  have sh: "sha256 test_env [1, 2, 3] = [6, 3]"
    by (simp add: test_env_def test_sha256_def)
  from simulation_gate [OF su, where env = test_env and model_hash = "[9, 9]" and pf = None
      and pol = None and vq = True and key = None
      and pb = "\<lparr>send_model_payload = \<lparr>smp_model_hash = [9, 9], smp_model_id = ''m''\<rparr>,
                   run_model_payload =
                     \<lparr>rmp_output_tensors = [], rmp_input_hash = [], rmp_model_id = []\<rparr>\<rparr>"]
    signed du
  have u: "UploadModelResponse_validate test_env ?u [9, 9] None None True None False
             = Inl (SignatureError ''Response was produced using simulation mode'')
         \<and> UploadModelResponse_validate test_env ?u [9, 9] None None True None True = Inr ()"
    by simp
  from simulation_gate [OF sr, where env = test_env and pf = None and pol = None and vq = True
      and key = None and model_id = "''m''" and tensors = "Nested [[1, 2], [3]]"
      and dtype = "DtOne U8" and shape = "ShNested [[2], [1]]"] signed
  have r1: "RunModelResponse_validate test_env ?r ''m'' (Nested [[1, 2], [3]]) (DtOne U8)
              (ShNested [[2], [1]]) None None True None False
             = Inl (SignatureError ''Response was produced using simulation mode'')"
    by simp
  from simulation_gate [OF sr, where env = test_env and pf = None and pol = None and vq = True
      and key = None and model_id = "''m''" and tensors = "Nested [[1, 2], [3]]"
      and dtype = "DtMany [Some U8, Some U8]" and shape = "ShNested [[2], [1]]"
      and ts = "[[1, 2], [3]]" and ss = "[[2], [1]]" and fed = "[1, 2, 3]"
      and pb = "\<lparr>send_model_payload = \<lparr>smp_model_hash = [], smp_model_id = []\<rparr>,
                   run_model_payload =
                     \<lparr>rmp_output_tensors = [], rmp_input_hash = [6, 3],
                      rmp_model_id = ''m''\<rparr>\<rparr>"]
    signed dr ht wt ws sh
  have r2: "RunModelResponse_validate test_env ?r ''m'' (Nested [[1, 2], [3]])
              (DtMany [Some U8, Some U8]) (ShNested [[2], [1]]) None None True None True
             = Inr ()"
    by simp
  from su sr u r1 r2 show ?thesis by simp
qed

subsection \<open>Signature verification\<close>

lemma hash_tensors_verify_update:
  "hash_tensors (env\<lparr>verify := v\<rparr>) i ts ds fed = hash_tensors env i ts ds fed"
  by (induction ts arbitrary: i fed) simp_all

lemma validate_fails_with_decoder_error:
  assumes "check_signed self allow = Inr ()"
      and "load_policy env self pf pol vq = Inr pol'"
      and "quote_validation env self pol' vq key = Inr k"
      and "decode_payload env self = Inl e"
  shows "UploadModelResponse_validate env self model_hash pf pol vq key allow = Inl e"
    and "RunModelResponse_validate env self model_id tensors dtype shape pf pol vq key allow
           = Inl e"
  using assms
  by (simp_all add: UploadModelResponse_validate_def RunModelResponse_validate_def)

text \<open>
  Where the payload decodes and a signing key has been obtained, both \<^verbatim>\<open>validate\<close>
  methods verify the signature over the payload bytes with that key and return
  \<open>SignatureError ''Invalid signature''\<close> when the verification fails. In simulation
  mode the verification is skipped: the result does not depend on what \<open>verify\<close>
  answers.
\<close>

lemma signature_verification:
  "(is_signed self \<and> \<not> is_simulation_mode self
      \<and> load_policy env self pf pol vq = Inr pol'
      \<and> quote_validation env self pol' vq key = Inr (Some k)
      \<and> decode_payload env self = Inr pb
      \<and> signature self = Some s \<and> payload self = Some p
      \<and> \<not> verify env k s p
    \<longrightarrow> UploadModelResponse_validate env self model_hash pf pol vq key allow
          = Inl (SignatureError ''Invalid signature'')
      \<and> RunModelResponse_validate env self model_id tensors dtype shape pf pol vq key allow
          = Inl (SignatureError ''Invalid signature''))
   \<and> (is_simulation_mode self
    \<longrightarrow> UploadModelResponse_validate (env\<lparr>verify := v\<rparr>) self model_hash pf pol vq key allow
          = UploadModelResponse_validate env self model_hash pf pol vq key allow
      \<and> RunModelResponse_validate (env\<lparr>verify := v\<rparr>) self model_id tensors dtype shape pf pol
            vq key allow
          = RunModelResponse_validate env self model_id tensors dtype shape pf pol vq key allow)"
proof (intro conjI impI)
  assume a: "is_signed self \<and> \<not> is_simulation_mode self
      \<and> load_policy env self pf pol vq = Inr pol'
      \<and> quote_validation env self pol' vq key = Inr (Some k)
      \<and> decode_payload env self = Inr pb
      \<and> signature self = Some s \<and> payload self = Some p
      \<and> \<not> verify env k s p"
  then have cs: "check_signed self allow = Inr ()"
    by (simp add: check_signed_def)
  from a have vs: "verify_signature env self (Some k) = Inl (SignatureError ''Invalid signature'')"
    by (simp add: verify_signature_def)
  from a cs vs
  show "UploadModelResponse_validate env self model_hash pf pol vq key allow
          = Inl (SignatureError ''Invalid signature'')"
    by (simp add: UploadModelResponse_validate_def)
  from a cs vs
  show "RunModelResponse_validate env self model_id tensors dtype shape pf pol vq key allow
          = Inl (SignatureError ''Invalid signature'')"
    by (simp add: RunModelResponse_validate_def)
next
  assume s: "is_simulation_mode self"
  then have steps: "load_policy (env\<lparr>verify := v\<rparr>) self pf pol vq = Inr pol"
    "\<And>pol. quote_validation (env\<lparr>verify := v\<rparr>) self pol vq key = Inr key"
    "\<And>key. verify_signature (env\<lparr>verify := v\<rparr>) self key = Inr ()"
    "decode_payload (env\<lparr>verify := v\<rparr>) self = decode_payload env self"
    by (simp_all add: steps_in_simulation decode_payload_def split: option.split)
  from s steps
  show "UploadModelResponse_validate (env\<lparr>verify := v\<rparr>) self model_hash pf pol vq key allow
          = UploadModelResponse_validate env self model_hash pf pol vq key allow"
    by (simp add: UploadModelResponse_validate_def steps_in_simulation)
  from s steps
  show "RunModelResponse_validate (env\<lparr>verify := v\<rparr>) self model_id tensors dtype shape pf pol
            vq key allow
          = RunModelResponse_validate env self model_id tensors dtype shape pf pol vq key allow"
    by (simp add: RunModelResponse_validate_def steps_in_simulation hash_tensors_verify_update)
qed

text \<open>
  C1. A response that is signed and not in simulation mode must fail validation with
  \<open>SignatureError ''Invalid signature''\<close> when one byte of its payload is changed and
  the signature kept. Both \<^verbatim>\<open>validate\<close> methods decode the payload before the
  \<^verbatim>\<open>try\<close> block that verifies the signature: the validly signed responses below are
  accepted, and with the length byte of their payload changed the signature no longer
  verifies, yet \<^verbatim>\<open>validate\<close> fails in the decoder and not with \<open>SignatureError\<close>.
\<close>

theorem tampered_payload_fails_in_decoder:
  "UploadModelResponse_validate test_env test_upload_response [9, 9] None None False
      (Some test_key) False = Inr ()
   \<and> \<not> verify test_env test_key (test_signature test_key test_upload_payload)
         (test_upload_payload[1 := 0xFF])
   \<and> UploadModelResponse_validate test_env
        (test_upload_response\<lparr>payload := Some (test_upload_payload[1 := 0xFF])\<rparr>)
        [9, 9] None None False (Some test_key) False = Inl DecodeError
   \<and> RunModelResponse_validate test_env test_run_response ''m'' (Nested [[1, 2], [3]])
        (DtMany [Some U8, Some U8]) (ShNested [[2], [1]]) None None False (Some test_key) False
      = Inr ()
   \<and> \<not> verify test_env test_key (test_signature test_key test_run_payload)
         (test_run_payload[1 := 0xFF])
   \<and> RunModelResponse_validate test_env
        (test_run_response\<lparr>payload := Some (test_run_payload[1 := 0xFF])\<rparr>)
        ''m'' (Nested [[1, 2], [3]]) (DtMany [Some U8, Some U8]) (ShNested [[2], [1]])
        None None False (Some test_key) False = Inl DecodeError"
  by code_simp

subsection \<open>Content binding\<close>

text \<open>What the hash object has been fed: the chunks of all tensors, end to end.\<close>

lemma hash_update_all_concat: "hash_update_all fed chunks = fed @ concat chunks"
  by (induction chunks arbitrary: fed) simp_all

lemma hash_tensors_stream:
  "hash_tensors env i ts ds fed = Inr out \<Longrightarrow>
     \<exists>chunks. length chunks = length ts \<and> out = fed @ concat (map concat chunks)
       \<and> (\<forall>j < length ts. serialize_tensor env (ts ! j) (ds ! (i + j)) = Inr (chunks ! j))"
proof (induction ts arbitrary: i fed)
  case Nil
  then show ?case by simp
next
  case (Cons t ts)
  from Cons.prems have lt: "i < length ds"
    by (simp split: if_splits)
  with Cons.prems obtain c where c: "serialize_tensor env t (ds ! i) = Inr c"
    and rest: "hash_tensors env (i + 1) ts ds (hash_update_all fed c) = Inr out"
    by (cases "serialize_tensor env t (ds ! i)") simp_all
  from Cons.IH [OF rest] obtain cs where cs: "length cs = length ts"
    "out = hash_update_all fed c @ concat (map concat cs)"
    "\<forall>j < length ts. serialize_tensor env (ts ! j) (ds ! (i + 1 + j)) = Inr (cs ! j)"
    by blast
  have "\<forall>j < length (t # ts). serialize_tensor env ((t # ts) ! j) (ds ! (i + j)) = Inr ((c # cs) ! j)"
  proof (intro allI impI)
    fix j assume "j < length (t # ts)"
    then show "serialize_tensor env ((t # ts) ! j) (ds ! (i + j)) = Inr ((c # cs) ! j)"
      using c cs(3) by (cases j) simp_all
  qed
  with cs(1,2) show ?case
    by (intro exI [of _ "c # cs"]) (simp add: hash_update_all_concat)
qed

text \<open>
  The tensors enter the validation through these bytes only: two tensor sets that feed
  the hash object the same bytes are validated alike, whatever the serialization.
\<close>

lemma validate_same_stream:
  assumes "wrap_tensors tensors = Inr ts" and "wrap_tensors tensors' = Inr ts'"
      and "wrap_shape shape = Inr ss" and "wrap_shape shape' = Inr ss'"
      and "hash_tensors env 0 ts (wrap_dtype dtype) [] = Inr fed"
      and "hash_tensors env 0 ts' (wrap_dtype dtype') [] = Inr fed"
  shows "RunModelResponse_validate env self model_id tensors dtype shape pf pol vq key allow
       = RunModelResponse_validate env self model_id tensors' dtype' shape' pf pol vq key allow"
  using assms by (simp add: RunModelResponse_validate_def)

text \<open>
  C2, amended. For a response that passes the checks up to and including the signature
  verification, \<^verbatim>\<open>UploadModelResponse.validate\<close> returns \<open>SignatureError\<close> when the
  caller's model hash differs from the one in the payload, and
  \<^verbatim>\<open>RunModelResponse.validate\<close> returns \<open>SignatureError\<close> when the digest of the bytes
  fed to the hash object (the serialized chunks of the caller's tensors, end to end)
  differs from the input hash in the payload, or else when the caller's model id differs
  from the one in the payload.
\<close>

theorem content_binding:
  "(check_signed self allow = Inr ()
      \<and> load_policy env self pf pol vq = Inr pol'
      \<and> quote_validation env self pol' vq key = Inr k
      \<and> decode_payload env self = Inr pb
      \<and> verify_signature env self k = Inr ()
    \<longrightarrow> (model_hash \<noteq> smp_model_hash (send_model_payload pb)
          \<longrightarrow> UploadModelResponse_validate env self model_hash pf pol vq key allow
                = Inl (SignatureError ''Invalid returned model_hash''))
      \<and> (wrap_tensors tensors = Inr ts \<and> wrap_shape shape = Inr ss
            \<and> hash_tensors env 0 ts (wrap_dtype dtype) [] = Inr fed
          \<longrightarrow> (sha256 env fed \<noteq> rmp_input_hash (run_model_payload pb)
                \<longrightarrow> RunModelResponse_validate env self model_id tensors dtype shape pf pol vq key
                        allow
                      = Inl (SignatureError ''Invalid returned input_hash''))
            \<and> (sha256 env fed = rmp_input_hash (run_model_payload pb)
                  \<and> model_id \<noteq> rmp_model_id (run_model_payload pb)
                \<longrightarrow> RunModelResponse_validate env self model_id tensors dtype shape pf pol vq key
                        allow
                      = Inl (SignatureError ''Invalid returned model_id''))))"
  by (simp add: UploadModelResponse_validate_def RunModelResponse_validate_def)

theorem content_binding_witness:
  "UploadModelResponse_validate test_env test_upload_response [9, 8] None None False
      (Some test_key) False
    = Inl (SignatureError ''Invalid returned model_hash'')
   \<and> RunModelResponse_validate test_env test_run_response ''m'' (Nested [[1, 2], [4]])
      (DtMany [Some U8, Some U8]) (ShNested [[2], [1]]) None None False (Some test_key) False
    = Inl (SignatureError ''Invalid returned input_hash'')
   \<and> RunModelResponse_validate test_env test_run_response ''n'' (Nested [[1, 2], [3]])
      (DtMany [Some U8, Some U8]) (ShNested [[2], [1]]) None None False (Some test_key) False
    = Inl (SignatureError ''Invalid returned model_id'')"
proof -
  let ?u = "test_upload_response" and ?r = "test_run_response"
  let ?pu = "\<lparr>send_model_payload = \<lparr>smp_model_hash = [9, 9], smp_model_id = ''m''\<rparr>,
              run_model_payload =
                \<lparr>rmp_output_tensors = [], rmp_input_hash = [], rmp_model_id = []\<rparr>\<rparr>"
  let ?pr = "\<lparr>send_model_payload = \<lparr>smp_model_hash = [], smp_model_id = []\<rparr>,
              run_model_payload =
                \<lparr>rmp_output_tensors = [], rmp_input_hash = [6, 3], rmp_model_id = ''m''\<rparr>\<rparr>"
  have hu: "check_signed ?u False = Inr ()"
    "load_policy test_env ?u None None False = Inr None"
    "quote_validation test_env ?u None False (Some test_key) = Inr (Some test_key)"
    "decode_payload test_env ?u = Inr ?pu"
    "verify_signature test_env ?u (Some test_key) = Inr ()"
    by code_simp+
  have hr: "check_signed ?r False = Inr ()"
    "load_policy test_env ?r None None False = Inr None"
    "quote_validation test_env ?r None False (Some test_key) = Inr (Some test_key)"
    "decode_payload test_env ?r = Inr ?pr"
    "verify_signature test_env ?r (Some test_key) = Inr ()"
    by code_simp+
  have t4: "wrap_tensors (Nested [[1, 2], [4 :: int]]) = Inr [[1, 2], [4]]"
    "wrap_tensors (Nested [[1, 2], [3 :: int]]) = Inr [[1, 2], [3]]"
    "wrap_shape (ShNested [[2], [1]]) = Inr [[2], [1]]"
    "hash_tensors test_env 0 [[1, 2], [4]] (wrap_dtype (DtMany [Some U8, Some U8])) []
       = Inr [1, 2, 4]"
    "hash_tensors test_env 0 [[1, 2], [3]] (wrap_dtype (DtMany [Some U8, Some U8])) []
       = Inr [1, 2, 3]"
    "sha256 test_env [1, 2, 4] = [7, 3]"
    "sha256 test_env [1, 2, 3] = [6, 3]"
    by code_simp+
  from content_binding [where self = ?u and env = test_env and allow = False and pf = None
      and pol = None and pol' = None and vq = False and key = "Some test_key"
      and k = "Some test_key" and pb = ?pu and model_hash = "[9, 8]"] hu
  have a: "UploadModelResponse_validate test_env ?u [9, 8] None None False (Some test_key) False
             = Inl (SignatureError ''Invalid returned model_hash'')"
    by simp
  from content_binding [where self = ?r and env = test_env and allow = False and pf = None
      and pol = None and pol' = None and vq = False and key = "Some test_key"
      and k = "Some test_key" and pb = ?pr and tensors = "Nested [[1, 2], [4]]"
      and ts = "[[1, 2], [4]]" and shape = "ShNested [[2], [1]]" and ss = "[[2], [1]]"
      and dtype = "DtMany [Some U8, Some U8]" and fed = "[1, 2, 4]" and model_id = "''m''"]
    hr t4
  have b: "RunModelResponse_validate test_env ?r ''m'' (Nested [[1, 2], [4]])
      (DtMany [Some U8, Some U8]) (ShNested [[2], [1]]) None None False (Some test_key) False
    = Inl (SignatureError ''Invalid returned input_hash'')"
    by simp
  from content_binding [where self = ?r and env = test_env and allow = False and pf = None
      and pol = None and pol' = None and vq = False and key = "Some test_key"
      and k = "Some test_key" and pb = ?pr and tensors = "Nested [[1, 2], [3]]"
      and ts = "[[1, 2], [3]]" and shape = "ShNested [[2], [1]]" and ss = "[[2], [1]]"
      and dtype = "DtMany [Some U8, Some U8]" and fed = "[1, 2, 3]" and model_id = "''n''"]
    hr t4
  have c: "RunModelResponse_validate test_env ?r ''n'' (Nested [[1, 2], [3]])
      (DtMany [Some U8, Some U8]) (ShNested [[2], [1]]) None None False (Some test_key) False
    = Inl (SignatureError ''Invalid returned model_id'')"
    by simp
  from a b c show ?thesis by simp
qed

text \<open>
  The digest is taken over the chunks end to end, with nothing between two tensors. The
  response to a run on the tensors \<open>[[1, 2], [3]]\<close> is accepted for them and also for the
  tensors \<open>[[1], [2, 3]]\<close>.
\<close>

theorem content_binding_counterexample:
  "fst (run_model test_env (test_server ''0.5.0'')
          \<lparr>rm_model_id = ''m'', rm_tensors = Nested [[1, 2], [3]],
           rm_dtype = DtMany [Some U8, Some U8], rm_shape = ShNested [[2], [1]],
           rm_sign = True\<rparr> test_connection [])
     = Inr (SignedResponse.extend test_run_response
              \<lparr>output_tensors = [], run_model_id = ''m''\<rparr>)
   \<and> Nested [[1, 2], [3 :: int]] \<noteq> Nested [[1], [2, 3]]
   \<and> RunModelResponse_validate test_env test_run_response ''m'' (Nested [[1], [2, 3]])
        (DtMany [Some U8, Some U8]) (ShNested [[1], [2]]) None None False (Some test_key) False
     = Inr ()"
  by code_simp

subsection \<open>The closed connection\<close>

lemma close_closed: "closed self \<Longrightarrow> close self w = (Inr (), self, w)"
  by (simp add: close_def)

lemma call_closed:
  "closed self \<Longrightarrow>
     call env srv op (self, w) =
       ((case op of Op_close \<Rightarrow> Inr Out_close | _ \<Rightarrow> Inl (ValueError ''Illegal operation on closed connection.'')), self, w)"
  by (cases op)
    (simp_all add: upload_model_def run_model_def delete_model_def close_closed
      raise_exception_if_conn_closed_def returning_def)

lemma calls_closed:
  "closed self \<Longrightarrow>
     calls env srv ops (self, w) =
       (map (\<lambda>op. case op of Op_close \<Rightarrow> Inr Out_close | _ \<Rightarrow> Inl (ValueError ''Illegal operation on closed connection.'')) ops,
        self, w)"
  by (induction ops) (simp_all add: call_closed)

text \<open>
  C4. On a closed connection \<^verbatim>\<open>upload_model\<close>, \<^verbatim>\<open>run_model\<close> and \<^verbatim>\<open>delete_model\<close>
  raise the closed-connection error (\<^verbatim>\<open>ValueError("Illegal operation on closed
  connection.")\<close>) and leave the transport log as it was: nothing is read, opened or
  called. Whatever calls follow, each operation fails in the same way, each \<^verbatim>\<open>close\<close>
  does nothing, and the connection stays closed and unchanged.
\<close>

theorem closed_connection_is_terminal:
  assumes "closed self"
  shows "upload_model env srv upload_args self w = (Inl (ValueError ''Illegal operation on closed connection.''), w)
       \<and> run_model env srv run_args self w = (Inl (ValueError ''Illegal operation on closed connection.''), w)
       \<and> delete_model env srv model_id self w = (Inl (ValueError ''Illegal operation on closed connection.''), w)
       \<and> calls env srv ops (self, w) =
           (map (\<lambda>op. case op of Op_close \<Rightarrow> Inr Out_close | _ \<Rightarrow> Inl (ValueError ''Illegal operation on closed connection.'')) ops,
            self, w)"
  using assms
  by (simp add: upload_model_def run_model_def delete_model_def calls_closed
      raise_exception_if_conn_closed_def)

theorem closed_connection_is_terminal_witness:
  "closed (fst (snd (close test_connection [])))
   \<and> delete_model test_env (test_server ''0.5.0'') ''m'' (fst (snd (close test_connection [])))
        [ChannelClose 4]
      = (Inl (ValueError ''Illegal operation on closed connection.''), [ChannelClose 4])
   \<and> calls test_env (test_server ''0.5.0'')
        [Op_delete_model ''m'', Op_close,
         Op_run_model \<lparr>rm_model_id = ''m'', rm_tensors = Flat [1], rm_dtype = DtOne U8,
                        rm_shape = ShFlat [1], rm_sign = False\<rparr>]
        (fst (snd (close test_connection [])), [ChannelClose 4])
      = ([Inl (ValueError ''Illegal operation on closed connection.''), Inr Out_close,
          Inl (ValueError ''Illegal operation on closed connection.'')],
         fst (snd (close test_connection [])), [ChannelClose 4])"
proof -
  let ?c = "fst (snd (close test_connection []))"
  have c: "closed ?c"
    by (simp add: close_def test_connection_def)
  from closed_connection_is_terminal [OF c, where env = test_env
      and srv = "test_server ''0.5.0''" and model_id = "''m''" and w = "[ChannelClose 4]"
      and ops = "[Op_delete_model ''m'', Op_close,
         Op_run_model \<lparr>rm_model_id = ''m'', rm_tensors = Flat [1], rm_dtype = DtOne U8,
                        rm_shape = ShFlat [1], rm_sign = False\<rparr>]"]
  show ?thesis
    using c by (simp del: calls.simps)
qed

subsection \<open>\<^verbatim>\<open>close\<close>\<close>

text \<open>
  C5, amended. \<^verbatim>\<open>close\<close> on a closed connection returns without raising and changes
  neither the connection nor the transport, so a second call is a no-op. On an open
  connection holding a channel it closes that channel, marks the connection closed and
  sets the channel, the stub, the policy and the server version to \<^verbatim>\<open>None\<close>; every
  other attribute keeps its value.
\<close>

theorem close_idempotent:
  "(close self w = (Inr (), self', w') \<longrightarrow> close self' w' = (Inr (), self', w'))
   \<and> (\<not> closed self \<and> channel self = Some c
      \<longrightarrow> close self w =
            (Inr (),
             self\<lparr>closed := True, channel := None, stub := None, policy := None,
                  server_version := None\<rparr>,
             w @ [ChannelClose c]))"
  by (auto simp: close_def split: if_splits option.splits)

theorem close_idempotent_witness:
  "close test_connection [] =
     (Inr (),
      test_connection\<lparr>closed := True, channel := None, stub := None, policy := None,
                      server_version := None\<rparr>,
      [ChannelClose 4])
   \<and> close (test_connection\<lparr>closed := True, channel := None, stub := None, policy := None,
                             server_version := None\<rparr>) [ChannelClose 4] =
     (Inr (),
      test_connection\<lparr>closed := True, channel := None, stub := None, policy := None,
                      server_version := None\<rparr>,
      [ChannelClose 4])"
proof -
  have o: "\<not> closed test_connection" "channel test_connection = Some 4"
    by (simp_all add: test_connection_def)
  from close_idempotent [where self = test_connection and c = 4 and w = "[]"] o
  have a: "close test_connection [] =
     (Inr (),
      test_connection\<lparr>closed := True, channel := None, stub := None, policy := None,
                      server_version := None\<rparr>,
      [ChannelClose 4])"
    by simp
  from close_idempotent [where self = test_connection and w = "[]"
      and self' = "test_connection\<lparr>closed := True, channel := None, stub := None,
                                     policy := None, server_version := None\<rparr>"
      and w' = "[ChannelClose 4]"] a
  show ?thesis by simp
qed

text \<open>
  After \<^verbatim>\<open>close\<close> the connection still holds the enclave signing key and the
  attestation evidence.
\<close>

theorem close_keeps_key_and_attestation_counterexample:
  "fst (close test_connection []) = Inr ()
   \<and> enclave_signing_key (fst (snd (close test_connection []))) = Some test_key
   \<and> conn_attestation (fst (snd (close test_connection []))) = Some test_attestation
   \<and> policy (fst (snd (close test_connection []))) = None"
  by (simp add: close_def test_connection_def)

subsection \<open>The bootstrap\<close>

lemma or_raise_simps [simp]:
  "or_raise (Inl e) w f = (Inl e, w)"
  "or_raise (Inr x) w f = f x"
  by (simp_all add: or_raise_def)

lemma or_rpc_failed_simps [simp]:
  "or_rpc_failed env c w (Inl rpc_error) f = rpc_failed env c w rpc_error"
  "or_rpc_failed env c w (Inr x) f = f x"
  by (simp_all add: or_rpc_failed_def)

lemma connect_server_version_error:
  assumes "simulation \<or> Policy_from_file env policy' = Inr p"
      and "untrusted_server_creds env simulation (strip_https env addr) untrusted_port
             certificate = Inr creds"
      and "GetServerInfo srv = Inr version"
      and "\<not> supported_server_version env version"
  shows "connect_server env srv self w addr server_name policy' certificate simulation
           untrusted_port attested_port =
         (Inl version_error,
          w @ [SecureChannel (length w) (strip_https env addr @ '':'' @ str_int untrusted_port)
                 creds server_name,
               StubCall (length w) ''GetServerInfo''])"
proof (cases simulation)
  case True
  with assms(2-4) show ?thesis
    by (simp add: connect_server_def secure_channel_def Let_def)
next
  case False
  with assms show ?thesis
    by (simp add: connect_server_def secure_channel_def Let_def)
qed

text \<open>
  C6. When the server's \<^verbatim>\<open>GetServerInfo\<close> reply carries a version that
  \<^verbatim>\<open>supported_server_version\<close> rejects, the bootstrap raises \<open>VersionError\<close>. Up to
  then it has opened one channel, the discovery channel to the untrusted port, and made
  one call on it: no attested channel is opened, and the call is not repeated.
\<close>

theorem version_gate:
  assumes "simulation \<or> Policy_from_file env policy' = Inr p"
      and "untrusted_server_creds env simulation (strip_https env addr) untrusted_port
             certificate = Inr creds"
      and "GetServerInfo srv = Inr version"
      and "\<not> supported_server_version env version"
  shows "BlindAiConnection_init env uname srv w addr server_name policy' certificate simulation
           untrusted_port attested_port =
         (Inl (VersionError
            ''Incompatible client/server versions. Please use the correct client for your server.''),
          w @ [SecureChannel (length w) (strip_https env addr @ '':'' @ str_int untrusted_port)
                 creds server_name,
               StubCall (length w) ''GetServerInfo''])"
  unfolding BlindAiConnection_init_def
  by (simp add: connect_server_version_error [OF assms] version_error_def)

theorem version_gate_witness:
  "BlindAiConnection_init test_env test_platform (test_server ''0.4.0'') [] ''https://enclave''
     ''blindai-srv'' (Some ''policy.toml'') (Some ''host_server.pem'') False 50052 50051 =
   (Inl (VersionError
      ''Incompatible client/server versions. Please use the correct client for your server.''),
    [SecureChannel 0 ''enclave:50052'' [0x2D] ''blindai-srv'', StubCall 0 ''GetServerInfo''])"
proof -
  have h: "False \<or> Policy_from_file test_env (Some ''policy.toml'') = Inr (Policy [1])"
    "untrusted_server_creds test_env False (strip_https test_env ''https://enclave'') 50052
       (Some ''host_server.pem'') = Inr [0x2D]"
    "GetServerInfo (test_server ''0.4.0'') = Inr ''0.4.0''"
    "\<not> supported_server_version test_env ''0.4.0''"
    by (simp_all add: test_env_def test_server_def untrusted_server_creds_def)
  have a: "strip_https test_env ''https://enclave'' @ '':'' @ str_int 50052 = ''enclave:50052''"
    by (simp add: test_env_def str_int_def str_nat.simps)
  from version_gate [OF h, where uname = test_platform and w = "[]"
      and server_name = "''blindai-srv''" and attested_port = 50051] a
  show ?thesis by simp
qed

text \<open>
  C7. The \<^verbatim>\<open>try\<close> block of \<^verbatim>\<open>_connect_server\<close> closes the discovery channel in its
  \<^verbatim>\<open>except RpcError\<close> handler only. A transport failure leaves no channel open; a
  version mismatch and an attestation failure leave the discovery channel open when the
  error reaches the caller.
\<close>

theorem bootstrap_failure_leaks_discovery_channel:
  "BlindAiConnection_init test_env test_platform
     ((test_server ''0.5.0'')\<lparr>GetServerInfo := Inl (RpcError ''unavailable'')\<rparr>) []
     ''https://enclave'' ''blindai-srv'' (Some ''policy.toml'') (Some ''host_server.pem'') False
     50052 50051 =
   (Inl (ConnectionError ''unavailable''),
    [SecureChannel 0 ''enclave:50052'' [0x2D] ''blindai-srv'', StubCall 0 ''GetServerInfo'',
     ChannelClose 0])
   \<and> leaked [SecureChannel 0 ''enclave:50052'' [0x2D] ''blindai-srv'',
              StubCall 0 ''GetServerInfo'', ChannelClose 0] = []
   \<and> BlindAiConnection_init test_env test_platform (test_server ''0.4.0'') []
     ''https://enclave'' ''blindai-srv'' (Some ''policy.toml'') (Some ''host_server.pem'') False
     50052 50051 =
   (Inl (VersionError
      ''Incompatible client/server versions. Please use the correct client for your server.''),
    [SecureChannel 0 ''enclave:50052'' [0x2D] ''blindai-srv'', StubCall 0 ''GetServerInfo''])
   \<and> leaked [SecureChannel 0 ''enclave:50052'' [0x2D] ''blindai-srv'',
              StubCall 0 ''GetServerInfo''] = [0]
   \<and> BlindAiConnection_init test_env test_platform
     ((test_server ''0.5.0'')\<lparr>GetSgxQuoteWithCollateral :=
        Inr \<lparr>collateral = [], quote = [], enclave_held_data = []\<rparr>\<rparr>) []
     ''https://enclave'' ''blindai-srv'' (Some ''policy.toml'') (Some ''host_server.pem'') False
     50052 50051 =
   (Inl (AttestationError ''quote''),
    [SecureChannel 0 ''enclave:50052'' [0x2D] ''blindai-srv'', StubCall 0 ''GetServerInfo'',
     StubCall 0 ''GetSgxQuoteWithCollateral''])
   \<and> leaked [SecureChannel 0 ''enclave:50052'' [0x2D] ''blindai-srv'',
              StubCall 0 ''GetServerInfo'', StubCall 0 ''GetSgxQuoteWithCollateral''] = [0]"
  by (simp add: BlindAiConnection_init_def connect_server_def secure_channel_def Let_def
      test_env_def test_server_def test_platform_def untrusted_server_creds_def rpc_failed_def
      str_int_def str_nat.simps version_error_def leaked_def)

subsection \<open>The saved response\<close>

lemma loaded_response_is_signed_and_attested:
  "load_from_bytes env self b = Inr r \<Longrightarrow> is_signed r \<and> \<not> is_simulation_mode r"
  by (cases "ResponseProof_FromString env b")
    (auto simp: load_from_bytes_def is_signed_def is_simulation_mode_def)

lemma round_trip_of_complete_response:
  assumes "ResponseProof_FromString env (ResponseProof_SerializeToString env
             (ResponseProof_init (payload self) (signature self) (attestation self)))
           = Inr (ResponseProof_init (payload self) (signature self) (attestation self))"
      and "payload self = Some p" "signature self = Some s" "attestation self = Some a"
  shows "load_from_bytes env other (as_bytes env self) =
           Inr (other\<lparr>payload := payload self, signature := signature self,
                      attestation := attestation self\<rparr>)"
  using assms by (simp add: load_from_bytes_def as_bytes_def ResponseProof_init_def)

text \<open>
  C8. A response in simulation mode does not survive the round trip: \<^verbatim>\<open>as_bytes\<close>
  leaves the attestation field of the message unset, and \<^verbatim>\<open>load_from_bytes\<close> stores what
  the field's getter returns, an empty message, not \<^verbatim>\<open>None\<close>. The reloaded response
  is no longer in simulation mode. No byte string loads into a response in simulation mode.
\<close>

theorem round_trip_loses_simulation_mode:
  "is_simulation_mode (test_upload_response\<lparr>attestation := None\<rparr>)
   \<and> load_from_bytes test_env
        \<lparr>payload = None, signature = None, attestation = None\<rparr>
        (as_bytes test_env (test_upload_response\<lparr>attestation := None\<rparr>))
      = Inr (test_upload_response\<lparr>attestation := Some empty_reply\<rparr>)
   \<and> \<not> is_simulation_mode (test_upload_response\<lparr>attestation := Some empty_reply\<rparr>)
   \<and> load_from_bytes test_env
        \<lparr>payload = None, signature = None, attestation = None\<rparr>
        (as_bytes test_env \<lparr>payload = Some [1], signature = None, attestation = None\<rparr>)
      = Inr \<lparr>payload = Some [1], signature = Some [], attestation = Some empty_reply\<rparr>"
  by code_simp

subsection \<open>\<^verbatim>\<open>TensorInfo\<close>\<close>

text \<open>
  C9. \<^verbatim>\<open>TensorInfo.__init__\<close> takes the shape, the datum type, the index and the
  name and assigns the first two only: the new object has no \<^verbatim>\<open>index\<close> and no
  \<^verbatim>\<open>index_name\<close>, and reading either raises \<open>AttributeError\<close>.
\<close>

theorem TensorInfo_init_drops_index_and_name:
  "dims (TensorInfo_init d t i n) = Some d
   \<and> datum_type (TensorInfo_init d t i n) = Some t
   \<and> getattr (index (TensorInfo_init d t i n)) = Inl AttributeError
   \<and> getattr (index_name (TensorInfo_init d t i n)) = Inl AttributeError"
  by (simp add: TensorInfo_init_def TensorInfo_new_def getattr_def)

subsection \<open>The signing key at the verification step\<close>





end
